theory Spec2Isabelle
  imports Main "HOL-Library.AList"
begin

section \<open>The launcher script \<^verbatim>\<open>trends_dashboard_service.py\<close>\<close>

text \<open>
  The script imports \<^verbatim>\<open>sys\<close> and \<^verbatim>\<open>os\<close>, and, when it is the main module, prints
  twelve fixed lines and then runs \<^verbatim>\<open>exec(open('complete_dashboard.py').read())\<close>.

  What the script does is recorded as a trace of events, in program order, together with
  the way the module body ends. The dashboard file is not part of the repository: the
  meaning of its text is a parameter of the model (an interpreter), which may depend on
  everything the process can see and may return, raise, or never return.

  Text is a \<^typ>\<open>string\<close> holding the bytes of the source file (UTF-8), so the bullet
  character U+2022 of lines 15 to 17 is three bytes. Standard output is a device of the
  process: it may refuse a text (its encoding lacks a character, or the write fails), and
  then \<^verbatim>\<open>print\<close> raises and the module body ends there.
\<close>

subsection \<open>Values, exceptions, files\<close>

datatype pyval = StrV string | ModuleV string

text \<open>A module's global dictionary: keys in insertion order, one entry per key.\<close>

type_synonym namespace = "(string \<times> pyval) list"

text \<open>The argument of \<^verbatim>\<open>SystemExit\<close>: none, an integer, or any other object.\<close>

datatype exit_arg = ExitNone | ExitInt int | ExitOther string

datatype exn =
    FileNotFoundError string
  | PermissionError string
  | IsADirectoryError string
  | UnicodeDecodeError string
  | UnicodeEncodeError
  | OSError
  | SyntaxError
  | SystemExit exit_arg
  | KeyboardInterrupt
  | OtherError string

text \<open>
  What a relative path names in the working directory. \<open>Fifo\<close> is a named pipe that no
  writer opens. \<open>File None\<close> is a readable file whose bytes are not text in the default
  encoding; \<open>File (Some s)\<close> is one whose text is \<open>s\<close>.
\<close>

datatype fnode = NoEntry | NoAccess | Directory | Fifo | File "string option"

text \<open>Why standard output refuses a text: it cannot encode it, or it cannot write it.\<close>

datatype fault = EncodeFault | WriteFault

text \<open>
  A process: the globals of the module when its body starts, the argument vector, the
  working directory, standard output (its answer to a text, given all that was written
  before) and whether the flush of the standard streams at interpreter shutdown succeeds.
\<close>

record process =
  module_globals :: namespace
  argv :: "string list"
  files :: "string \<Rightarrow> fnode"
  stdout :: "string \<Rightarrow> string \<Rightarrow> fault option"
  flush_ok :: bool

text \<open>How a piece of code ends: it returns, it raises, or it never returns.\<close>

datatype 'a completion = Returned 'a | Raised exn | NoReturn

text \<open>
  The meaning of a source text run by \<^verbatim>\<open>exec\<close> in a namespace: what it emits and how it
  ends (returning the namespace as it left it).
\<close>

type_synonym interp = "string \<Rightarrow> process \<Rightarrow> namespace \<Rightarrow> string list \<times> namespace completion"

datatype event =
    Import string
  | Stdout string
  | Open string
  | Read string
  | Exec string namespace
  | FromContent string

record pstate =
  log :: "event list"
  globals :: namespace

record run =
  trace :: "event list"
  ending :: "namespace completion"

record fileobj =
  fname :: string
  ftext :: "string option"

subsection \<open>The statements of the script\<close>

text \<open>\<^verbatim>\<open>import m\<close> for a module that is always importable: binds the name \<open>m\<close>.\<close>

definition py_import :: "string \<Rightarrow> pstate \<Rightarrow> pstate" where
  "py_import m st =
     st\<lparr>log := log st @ [Import m], globals := AList.update m (ModuleV m) (globals st)\<rparr>"

text \<open>\<^verbatim>\<open>s * n\<close> on a string: \<open>n\<close> copies, none when \<open>n\<close> is not positive.\<close>

definition str_mul :: "string \<Rightarrow> int \<Rightarrow> string" where
  "str_mul s n = concat (replicate (nat n) s)"

text \<open>The text written to standard output by the launcher's own \<^verbatim>\<open>print\<close> calls.\<close>

fun stdout_of :: "event list \<Rightarrow> string" where
  "stdout_of [] = []"
| "stdout_of (Stdout s # es) = s @ stdout_of es"
| "stdout_of (e # es) = stdout_of es"

text \<open>The exception \<^verbatim>\<open>print\<close> raises for a refused text.\<close>

fun fault_exn :: "fault \<Rightarrow> exn" where
  "fault_exn EncodeFault = UnicodeEncodeError"
| "fault_exn WriteFault = OSError"

text \<open>
  \<^verbatim>\<open>print(s)\<close> hands \<open>s\<close> and a newline to standard output: the text is written, or
  nothing is and the call raises. \<^verbatim>\<open>print()\<close> is \<open>py_print p []\<close>.
\<close>

definition py_print :: "process \<Rightarrow> string \<Rightarrow> pstate \<Rightarrow> pstate \<times> exn option" where
  "py_print p s st =
     (case stdout p (stdout_of (log st)) (s @ [CHR 0x0A]) of
        None \<Rightarrow> (st\<lparr>log := log st @ [Stdout (s @ [CHR 0x0A])]\<rparr>, None)
      | Some f \<Rightarrow> (st, Some (fault_exn f)))"

text \<open>The UTF-8 bytes of U+2022.\<close>

definition bullet :: string where
  "bullet = [CHR 0xE2, CHR 0x80, CHR 0xA2]"

text \<open>The arguments of the twelve \<^verbatim>\<open>print\<close> calls of lines 9 to 20, in order.\<close>

definition banner_lines :: "string list" where
  "banner_lines =
    [str_mul ''='' 60,
     ''FASHION TRENDS DASHBOARD SERVICE'',
     str_mul ''='' 60,
     CHR 0x0A # ''Starting Dash application...'',
     ''Dashboard will be available at: http://localhost:8051'',
     CHR 0x0A # ''Features:'',
     ''  '' @ bullet @ '' Overview: Fashion trend analysis with Google Trends'',
     ''  '' @ bullet @ '' Trends: State-wise analysis & fashion blog reports'',
     ''  '' @ bullet @ '' Reports: Multi-timeframe comprehensive analysis'',
     CHR 0x0A # ''Press CTRL+C to stop the server'',
     str_mul ''='' 60,
     []]"

text \<open>Lines 9 to 20 of the script.\<close>

definition banner_stmts :: "process \<Rightarrow> (pstate \<Rightarrow> pstate \<times> exn option) list" where
  "banner_stmts p = map (py_print p) banner_lines"

text \<open>Statements run one after the other; the first that raises ends the block.\<close>

fun run_stmts :: "(pstate \<Rightarrow> pstate \<times> exn option) list \<Rightarrow> pstate \<Rightarrow> pstate \<times> exn option" where
  "run_stmts [] st = (st, None)"
| "run_stmts (s # ss) st =
     (case s st of
        (st', None) \<Rightarrow> run_stmts ss st'
      | (st', Some e) \<Rightarrow> (st', Some e))"

text \<open>
  \<^verbatim>\<open>open(path)\<close> in text mode for reading: raises when the path names no file, a file the
  process may not read, or a directory, and waits for a writer on a named pipe.
\<close>

definition py_open :: "process \<Rightarrow> string \<Rightarrow> fileobj completion" where
  "py_open p path =
     (case files p path of
        NoEntry \<Rightarrow> Raised (FileNotFoundError path)
      | NoAccess \<Rightarrow> Raised (PermissionError path)
      | Directory \<Rightarrow> Raised (IsADirectoryError path)
      | Fifo \<Rightarrow> NoReturn
      | File c \<Rightarrow> Returned \<lparr>fname = path, ftext = c\<rparr>)"

text \<open>\<^verbatim>\<open>f.read()\<close> with no size: the whole text, or a decoding error.\<close>

definition py_read :: "fileobj \<Rightarrow> exn + string" where
  "py_read f =
     (case ftext f of
        None \<Rightarrow> Inl (UnicodeDecodeError (fname f))
      | Some s \<Rightarrow> Inr s)"

text \<open>
  \<^verbatim>\<open>exec(src)\<close> with no namespace argument, at module level: the text runs in the
  caller's own globals, and what it leaves there stays.
\<close>

definition py_exec :: "interp \<Rightarrow> process \<Rightarrow> string \<Rightarrow> pstate \<Rightarrow> run" where
  "py_exec sem p src st =
     (case sem src p (globals st) of
        (out, r) \<Rightarrow>
          \<lparr>trace = log st @ [Exec src (globals st)] @ map FromContent out, ending = r\<rparr>)"

definition dashboard_path :: string where
  "dashboard_path = ''complete_dashboard.py''"

text \<open>
  Line 23, \<^verbatim>\<open>exec(open('complete_dashboard.py').read())\<close>: the argument is evaluated
  first (open, then read), and an exception of either step ends the statement.
\<close>

definition exec_line :: "interp \<Rightarrow> process \<Rightarrow> pstate \<Rightarrow> run" where
  "exec_line sem p st =
     (let st1 = st\<lparr>log := log st @ [Open dashboard_path]\<rparr> in
      case py_open p dashboard_path of
        Raised e \<Rightarrow> \<lparr>trace = log st1, ending = Raised e\<rparr>
      | NoReturn \<Rightarrow> \<lparr>trace = log st1, ending = NoReturn\<rparr>
      | Returned f \<Rightarrow>
          (let st2 = st1\<lparr>log := log st1 @ [Read (fname f)]\<rparr> in
           case py_read f of
             Inl e \<Rightarrow> \<lparr>trace = log st2, ending = Raised e\<rparr>
           | Inr src \<Rightarrow> py_exec sem p src st2))"

text \<open>
  The test \<^verbatim>\<open>__name__ == "__main__"\<close> of line 8, on the module's globals. A namespace
  with no \<^verbatim>\<open>__name__\<close> of its own finds the one of the builtins module, which differs.
\<close>

definition is_main :: "namespace \<Rightarrow> bool" where
  "is_main ns = (map_of ns ''__name__'' = Some (StrV ''__main__''))"

text \<open>The module body, lines 3 to 23.\<close>

definition launcher :: "interp \<Rightarrow> process \<Rightarrow> run" where
  "launcher sem p =
     (let st = py_import ''os'' (py_import ''sys'' \<lparr>log = [], globals = module_globals p\<rparr>) in
      if is_main (globals st)
      then (case run_stmts (banner_stmts p) st of
              (st', Some e) \<Rightarrow> \<lparr>trace = log st', ending = Raised e\<rparr>
            | (st', None) \<Rightarrow> exec_line sem p st')
      else \<lparr>trace = log st, ending = Returned (globals st)\<rparr>)"

subsection \<open>The exit status of the process\<close>

text \<open>
  How the process of a main module ends, as its parent sees it (CPython 3.8 or later on a
  64-bit POSIX system): it exits with a status from 0 to 255, or it is killed by the
  interrupt signal.
\<close>

datatype status = Exited nat | Interrupted

text \<open>
  The status \<^verbatim>\<open>SystemExit\<close> asks for: 0 for no argument, 1 for an argument that is not an
  integer, and for an integer its low eight bits, or 255 when it does not fit a C long.
\<close>

definition exit_code :: "exit_arg \<Rightarrow> nat" where
  "exit_code a =
     (case a of
        ExitNone \<Rightarrow> 0
      | ExitInt n \<Rightarrow> (if - (2 ^ 63) \<le> n \<and> n < 2 ^ 63 then nat (n mod 256) else 255)
      | ExitOther _ \<Rightarrow> 1)"

text \<open>
  The interpreter's top level. A body that never returns gives no status. An uncaught
  \<^verbatim>\<open>KeyboardInterrupt\<close> ends in the interrupt signal. Otherwise the standard streams
  are flushed, and a failed flush gives 120 whatever the body did; after a good flush the
  status is 0 for a body that returned, the one \<^verbatim>\<open>SystemExit\<close> asks for, and 1 for any
  other uncaught exception.
\<close>

definition exit_status :: "process \<Rightarrow> namespace completion \<Rightarrow> status option" where
  "exit_status p c =
     (case c of
        NoReturn \<Rightarrow> None
      | Raised KeyboardInterrupt \<Rightarrow> Some Interrupted
      | Raised (SystemExit a) \<Rightarrow> Some (Exited (if flush_ok p then exit_code a else 120))
      | Raised _ \<Rightarrow> Some (Exited (if flush_ok p then 1 else 120))
      | Returned _ \<Rightarrow> Some (Exited (if flush_ok p then 0 else 120)))"

subsection \<open>Observations on a run\<close>

text \<open>The events that are the launcher's own actions, not the content's.\<close>

fun own_event :: "event \<Rightarrow> bool" where
  "own_event (FromContent _) = False"
| "own_event _ = True"

definition own_actions :: "event list \<Rightarrow> event list" where
  "own_actions es = filter own_event es"

text \<open>The events that read the file, and the events that execute a text.\<close>

fun is_read :: "event \<Rightarrow> bool" where
  "is_read (Read _) = True"
| "is_read _ = False"

fun is_exec :: "event \<Rightarrow> bool" where
  "is_exec (Exec _ _) = True"
| "is_exec _ = False"

text \<open>The globals of the module when line 23 runs: the initial ones and the two imports.\<close>

definition launcher_globals :: "process \<Rightarrow> namespace" where
  "launcher_globals p =
     AList.update ''os'' (ModuleV ''os'') (AList.update ''sys'' (ModuleV ''sys'') (module_globals p))"

text \<open>The twelve writes of lines 9 to 20, spelled out.\<close>

definition banner_events :: "event list" where
  "banner_events =
    [Stdout (''============================================================'' @ [CHR 0x0A]),
     Stdout (''FASHION TRENDS DASHBOARD SERVICE'' @ [CHR 0x0A]),
     Stdout (''============================================================'' @ [CHR 0x0A]),
     Stdout ([CHR 0x0A] @ ''Starting Dash application...'' @ [CHR 0x0A]),
     Stdout (''Dashboard will be available at: http://localhost:8051'' @ [CHR 0x0A]),
     Stdout ([CHR 0x0A] @ ''Features:'' @ [CHR 0x0A]),
     Stdout (''  '' @ [CHR 0xE2, CHR 0x80, CHR 0xA2] @
             '' Overview: Fashion trend analysis with Google Trends'' @ [CHR 0x0A]),
     Stdout (''  '' @ [CHR 0xE2, CHR 0x80, CHR 0xA2] @
             '' Trends: State-wise analysis & fashion blog reports'' @ [CHR 0x0A]),
     Stdout (''  '' @ [CHR 0xE2, CHR 0x80, CHR 0xA2] @
             '' Reports: Multi-timeframe comprehensive analysis'' @ [CHR 0x0A]),
     Stdout ([CHR 0x0A] @ ''Press CTRL+C to stop the server'' @ [CHR 0x0A]),
     Stdout (''============================================================'' @ [CHR 0x0A]),
     Stdout [CHR 0x0A]]"

text \<open>
  What standard output takes of a list of texts handed to it one after the other, \<open>w\<close>
  being what was written before: the texts written, and the fault that stopped them.
\<close>

fun printed :: "process \<Rightarrow> string \<Rightarrow> string list \<Rightarrow> string list \<times> fault option" where
  "printed p w [] = ([], None)"
| "printed p w (t # ts) =
     (case stdout p w t of
        Some f \<Rightarrow> ([], Some f)
      | None \<Rightarrow> (case printed p (w @ t) ts of (ws, r) \<Rightarrow> (t # ws, r)))"

text \<open>Standard output takes every banner line, each with its newline.\<close>

definition banner_accepted :: "process \<Rightarrow> bool" where
  "banner_accepted p =
     (snd (printed p [] (map (\<lambda>s. s @ [CHR 0x0A]) banner_lines)) = None)"

text \<open>An exception that is a request to exit with status 0.\<close>

fun exits_zero :: "exn \<Rightarrow> bool" where
  "exits_zero (SystemExit a) = (exit_code a = 0)"
| "exits_zero _ = False"

subsection \<open>Sample content and sample processes\<close>

text \<open>
  The Python statement \<^verbatim>\<open>if __name__ == "__main__": body\<close> as the content of a file:
  the body runs when the namespace says so, and nothing happens otherwise.
\<close>

definition if_name_main :: "(process \<Rightarrow> namespace \<Rightarrow> string list \<times> namespace completion) \<Rightarrow>
    process \<Rightarrow> namespace \<Rightarrow> string list \<times> namespace completion" where
  "if_name_main body p ns = (if is_main ns then body p ns else ([], Returned ns))"

text \<open>A source text made of one such guarded statement.\<close>

definition guarded_src :: string where
  "guarded_src = ''if __name__ == '' @ [CHR 0x22] @ ''__main__'' @ [CHR 0x22] @ '': print(1)''"

text \<open>
  An interpreter that knows a handful of one-line programs, one of which reads the
  argument vector; every other text is a syntax error.
\<close>

definition sample_interp :: interp where
  "sample_interp src p ns =
     (if src = ''print(1)'' then ([''1'' @ [CHR 0x0A]], Returned ns)
      else if src = ''print(sys.argv)'' then ([concat (argv p) @ [CHR 0x0A]], Returned ns)
      else if src = ''1/0'' then ([], Raised (OtherError ''ZeroDivisionError''))
      else if src = ''sys.exit(0)'' then ([], Raised (SystemExit (ExitInt 0)))
      else if src = ''sys.exit(2)'' then ([], Raised (SystemExit (ExitInt 2)))
      else if src = ''while True: pass'' then ([], NoReturn)
      else if src = guarded_src
        then if_name_main (\<lambda>p ns. ([''1'' @ [CHR 0x0A]], Returned ns)) p ns
      else ([], Raised SyntaxError))"

text \<open>
  A process whose module is called \<open>name\<close>, whose working directory holds at most the
  dashboard file, and whose standard output takes every text (a UTF-8 terminal).
\<close>

definition sample_process :: "string \<Rightarrow> fnode \<Rightarrow> process" where
  "sample_process name node =
     \<lparr>module_globals = [(''__name__'', StrV name)],
      argv = [''trends_dashboard_service.py''],
      files = (\<lambda>path. if path = ''complete_dashboard.py'' then node else NoEntry),
      stdout = (\<lambda>w t. None),
      flush_ok = True\<rparr>"

text \<open>
  A standard output whose encoding is ASCII: it cannot encode a text with a byte above
  127, such as the bullet.
\<close>

definition ascii_stdout :: "string \<Rightarrow> string \<Rightarrow> fault option" where
  "ascii_stdout w t = (if list_ex digit7 t then Some EncodeFault else None)"

text \<open>The main module with no dashboard file, on an ASCII standard output.\<close>

definition ascii_process :: process where
  "ascii_process = (sample_process ''__main__'' NoEntry)\<lparr>stdout := ascii_stdout\<rparr>"

section \<open>Properties\<close>

subsection \<open>The banner\<close>

lemma str_mul_eq_60: "str_mul ''='' 60 = ''============================================================''"
  by (simp add: str_mul_def eval_nat_numeral)

lemma banner_events_lines: "banner_events = map (\<lambda>s. Stdout (s @ [CHR 0x0A])) banner_lines"
  by (simp add: banner_events_def banner_lines_def str_mul_eq_60 bullet_def)

lemma stdout_of_append: "stdout_of (es @ [Stdout t]) = stdout_of es @ t"
  by (induction es rule: stdout_of.induct) simp_all

lemma run_prints:
  "run_stmts (map (py_print p) ss) st =
     (st\<lparr>log := log st @
          map Stdout (fst (printed p (stdout_of (log st)) (map (\<lambda>s. s @ [CHR 0x0A]) ss)))\<rparr>,
      map_option fault_exn (snd (printed p (stdout_of (log st)) (map (\<lambda>s. s @ [CHR 0x0A]) ss))))"
proof (induction ss arbitrary: st)
  case Nil
  then show ?case by simp
next
  case (Cons s ss)
  show ?case
  proof (cases "stdout p (stdout_of (log st)) (s @ [CHR 0x0A])")
    case None
    then show ?thesis
      using Cons [of "st\<lparr>log := log st @ [Stdout (s @ [CHR 0x0A])]\<rparr>"]
      by (simp add: py_print_def stdout_of_append split: prod.splits)
  next
    case (Some f)
    then show ?thesis
      by (simp add: py_print_def)
  qed
qed

lemma printed_all:
  "snd (printed p w ts) = None \<Longrightarrow> fst (printed p w ts) = ts"
proof (induction ts arbitrary: w)
  case Nil
  then show ?case by simp
next
  case (Cons t ts)
  show ?case
  proof (cases "stdout p w t")
    case None
    with Cons.prems have "snd (printed p (w @ t) ts) = None"
      by (simp add: case_prod_beta)
    from Cons.IH [OF this] None show ?thesis
      by (simp add: case_prod_beta)
  next
    case (Some f)
    with Cons.prems show ?thesis by simp
  qed
qed

lemma printed_argv: "printed (p\<lparr>argv := a\<rparr>) w ts = printed p w ts"
  by (induction ts arbitrary: w) (simp_all split: option.splits)

lemma printed_files: "printed (p\<lparr>files := f\<rparr>) w ts = printed p w ts"
  by (induction ts arbitrary: w) (simp_all split: option.splits)

subsection \<open>The shape of a run\<close>

lemma launcher_globals_lookup:
  "map_of (launcher_globals p) k =
     (if k = ''os'' then Some (ModuleV ''os'')
      else if k = ''sys'' then Some (ModuleV ''sys'')
      else map_of (module_globals p) k)"
  by (simp add: launcher_globals_def update_conv')

lemma is_main_launcher_globals: "is_main (launcher_globals p) = is_main (module_globals p)"
  by (simp add: is_main_def launcher_globals_lookup)

lemma launcher_globals_argv: "launcher_globals (p\<lparr>argv := a\<rparr>) = launcher_globals p"
  by (simp add: launcher_globals_def)

lemma imports_run:
  "py_import ''os'' (py_import ''sys'' \<lparr>log = [], globals = module_globals p\<rparr>) =
     \<lparr>log = [Import ''sys'', Import ''os''], globals = launcher_globals p\<rparr>"
  by (simp add: py_import_def launcher_globals_def)

lemma banner_run:
  "run_stmts (banner_stmts p) \<lparr>log = [Import ''sys'', Import ''os''], globals = g\<rparr> =
     (\<lparr>log = [Import ''sys'', Import ''os''] @
             map Stdout (fst (printed p [] (map (\<lambda>s. s @ [CHR 0x0A]) banner_lines))),
       globals = g\<rparr>,
      map_option fault_exn (snd (printed p [] (map (\<lambda>s. s @ [CHR 0x0A]) banner_lines))))"
  by (simp add: banner_stmts_def run_prints)

lemma banner_accepted_printed:
  "banner_accepted p \<Longrightarrow>
   map Stdout (fst (printed p [] (map (\<lambda>s. s @ [CHR 0x0A]) banner_lines))) = banner_events"
  by (simp add: banner_accepted_def printed_all banner_events_lines)

lemma launcher_not_main:
  "\<not> is_main (module_globals p) \<Longrightarrow>
   launcher sem p =
     \<lparr>trace = [Import ''sys'', Import ''os''], ending = Returned (launcher_globals p)\<rparr>"
  by (simp add: launcher_def imports_run is_main_launcher_globals)

lemma launcher_print_fails:
  "is_main (module_globals p) \<Longrightarrow>
   snd (printed p [] (map (\<lambda>s. s @ [CHR 0x0A]) banner_lines)) = Some f \<Longrightarrow>
   launcher sem p =
     \<lparr>trace = [Import ''sys'', Import ''os''] @
              map Stdout (fst (printed p [] (map (\<lambda>s. s @ [CHR 0x0A]) banner_lines))),
      ending = Raised (fault_exn f)\<rparr>"
  by (simp add: launcher_def imports_run is_main_launcher_globals banner_run)

lemma launcher_main:
  "is_main (module_globals p) \<Longrightarrow> banner_accepted p \<Longrightarrow>
   launcher sem p =
     exec_line sem p
       \<lparr>log = [Import ''sys'', Import ''os''] @ banner_events, globals = launcher_globals p\<rparr>"
  using banner_accepted_printed [of p]
  by (simp add: launcher_def imports_run is_main_launcher_globals banner_run banner_accepted_def)

lemma exec_line_text:
  "files p dashboard_path = File (Some src) \<Longrightarrow>
   exec_line sem p st =
     \<lparr>trace = log st @ [Open dashboard_path, Read dashboard_path, Exec src (globals st)] @
              map FromContent (fst (sem src p (globals st))),
      ending = snd (sem src p (globals st))\<rparr>"
  by (simp add: exec_line_def py_open_def py_read_def py_exec_def split: prod.splits)

lemma exec_line_open_fails:
  "files p dashboard_path = NoEntry \<Longrightarrow>
   exec_line sem p st =
     \<lparr>trace = log st @ [Open dashboard_path], ending = Raised (FileNotFoundError dashboard_path)\<rparr>"
  "files p dashboard_path = NoAccess \<Longrightarrow>
   exec_line sem p st =
     \<lparr>trace = log st @ [Open dashboard_path], ending = Raised (PermissionError dashboard_path)\<rparr>"
  "files p dashboard_path = Directory \<Longrightarrow>
   exec_line sem p st =
     \<lparr>trace = log st @ [Open dashboard_path], ending = Raised (IsADirectoryError dashboard_path)\<rparr>"
  "files p dashboard_path = Fifo \<Longrightarrow>
   exec_line sem p st = \<lparr>trace = log st @ [Open dashboard_path], ending = NoReturn\<rparr>"
  by (simp_all add: exec_line_def py_open_def)

lemma exec_line_read_fails:
  "files p dashboard_path = File None \<Longrightarrow>
   exec_line sem p st =
     \<lparr>trace = log st @ [Open dashboard_path, Read dashboard_path],
      ending = Raised (UnicodeDecodeError dashboard_path)\<rparr>"
  by (simp add: exec_line_def py_open_def py_read_def)

lemma launcher_trace_cases:
  "trace (launcher sem p) =
     (if is_main (module_globals p)
      then [Import ''sys'', Import ''os''] @
        map Stdout (fst (printed p [] (map (\<lambda>s. s @ [CHR 0x0A]) banner_lines))) @
        (case snd (printed p [] (map (\<lambda>s. s @ [CHR 0x0A]) banner_lines)) of
           Some f \<Rightarrow> []
         | None \<Rightarrow> [Open dashboard_path] @
            (case files p dashboard_path of
               File c \<Rightarrow> [Read dashboard_path] @
                 (case c of
                    Some src \<Rightarrow> [Exec src (launcher_globals p)] @
                      map FromContent (fst (sem src p (launcher_globals p)))
                  | None \<Rightarrow> [])
             | _ \<Rightarrow> []))
      else [Import ''sys'', Import ''os''])"
  by (simp add: launcher_def imports_run is_main_launcher_globals banner_run exec_line_text
      exec_line_open_fails exec_line_read_fails split: fnode.splits option.splits)

lemma launcher_ending_cases:
  "ending (launcher sem p) =
     (if is_main (module_globals p)
      then (case snd (printed p [] (map (\<lambda>s. s @ [CHR 0x0A]) banner_lines)) of
              Some f \<Rightarrow> Raised (fault_exn f)
            | None \<Rightarrow>
               (case files p dashboard_path of
                  NoEntry \<Rightarrow> Raised (FileNotFoundError dashboard_path)
                | NoAccess \<Rightarrow> Raised (PermissionError dashboard_path)
                | Directory \<Rightarrow> Raised (IsADirectoryError dashboard_path)
                | Fifo \<Rightarrow> NoReturn
                | File None \<Rightarrow> Raised (UnicodeDecodeError dashboard_path)
                | File (Some src) \<Rightarrow> snd (sem src p (launcher_globals p))))
      else Returned (launcher_globals p))"
  by (simp add: launcher_def imports_run is_main_launcher_globals banner_run exec_line_text
      exec_line_open_fails exec_line_read_fails split: fnode.splits option.splits)

lemma own_actions_simps:
  "own_actions [] = []"
  "own_actions (e # es) = (if own_event e then e # own_actions es else own_actions es)"
  "own_actions (xs @ ys) = own_actions xs @ own_actions ys"
  "own_actions (map Stdout ws) = map Stdout ws"
  "own_actions (map FromContent out) = []"
  by (simp_all add: own_actions_def)

lemma launcher_own_actions:
  "own_actions (trace (launcher sem p)) =
     (if is_main (module_globals p)
      then [Import ''sys'', Import ''os''] @
        map Stdout (fst (printed p [] (map (\<lambda>s. s @ [CHR 0x0A]) banner_lines))) @
        (case snd (printed p [] (map (\<lambda>s. s @ [CHR 0x0A]) banner_lines)) of
           Some f \<Rightarrow> []
         | None \<Rightarrow> [Open dashboard_path] @
            (case files p dashboard_path of
               File c \<Rightarrow> [Read dashboard_path] @
                 (case c of Some src \<Rightarrow> [Exec src (launcher_globals p)] | None \<Rightarrow> [])
             | _ \<Rightarrow> []))
      else [Import ''sys'', Import ''os''])"
  unfolding launcher_trace_cases
  by (simp add: own_actions_simps split: fnode.splits option.splits)

subsection \<open>The sample processes\<close>

lemma sample_globals:
  "launcher_globals (sample_process name node) =
     [(''__name__'', StrV name), (''sys'', ModuleV ''sys''), (''os'', ModuleV ''os'')]"
  by (simp add: launcher_globals_def sample_process_def)

lemma sample_is_main: "is_main (module_globals (sample_process name node)) = (name = ''__main__'')"
  by (simp add: is_main_def sample_process_def)

lemma sample_files: "files (sample_process name node) dashboard_path = node"
  by (simp add: sample_process_def dashboard_path_def)

lemma printed_accepts_all: "stdout p = (\<lambda>w t. None) \<Longrightarrow> printed p w ts = (ts, None)"
  by (induction ts arbitrary: w) simp_all

lemma sample_accepted: "banner_accepted (sample_process name node)"
  by (simp add: banner_accepted_def printed_accepts_all sample_process_def)

lemma sample_accepted_argv: "banner_accepted ((sample_process name node)\<lparr>argv := a\<rparr>)"
  by (simp add: banner_accepted_def printed_accepts_all sample_process_def)

lemma ascii_printed:
  "printed ascii_process [] (map (\<lambda>s. s @ [CHR 0x0A]) banner_lines) =
     (take 6 (map (\<lambda>s. s @ [CHR 0x0A]) banner_lines), Some EncodeFault)"
  by (simp add: ascii_process_def ascii_stdout_def banner_lines_def str_mul_eq_60 bullet_def)

lemma ascii_is_main: "is_main (module_globals ascii_process)"
  by (simp add: ascii_process_def sample_process_def is_main_def)

lemma ascii_files: "files ascii_process dashboard_path = NoEntry"
  by (simp add: ascii_process_def sample_process_def)

lemma ascii_run:
  "launcher sem ascii_process =
     \<lparr>trace = [Import ''sys'', Import ''os''] @ take 6 banner_events,
      ending = Raised UnicodeEncodeError\<rparr>"
  using launcher_print_fails [OF ascii_is_main, of EncodeFault sem]
  by (simp add: ascii_printed banner_events_lines take_map)

lemma stdout_of_app: "stdout_of (xs @ ys) = stdout_of xs @ stdout_of ys"
  by (induction xs rule: stdout_of.induct) simp_all

lemma stdout_of_content: "stdout_of (map FromContent out) = []"
  by (induction out) simp_all

lemma launcher_stdout:
  "stdout_of (trace (launcher sem p)) =
     (if is_main (module_globals p)
      then stdout_of (map Stdout (fst (printed p [] (map (\<lambda>s. s @ [CHR 0x0A]) banner_lines))))
      else [])"
  unfolding launcher_trace_cases
  by (simp add: stdout_of_app stdout_of_content split: fnode.splits option.splits)

subsection \<open>The claims\<close>

text \<open>
  C1. In a main run whose banner standard output accepts, whose dashboard file exists and
  whose content returns, the trace is: the two imports, the twelve banner writes in the
  order of the source (separator, title, separator, startup message, URL, the feature
  list, the CTRL+C instruction, separator, empty line), and only then the opening, the
  reading and the execution of the file, followed by what the content emits. The banner
  is a constant: it depends on no input. (A run that executes the file has printed the
  whole banner, since a refused print ends the module body before line 23.)
\<close>

theorem banner_before_launch:
  assumes "is_main (module_globals p)"
    and "banner_accepted p"
    and "files p dashboard_path = File (Some src)"
    and "sem src p (launcher_globals p) = (out, Returned g)"
  shows "trace (launcher sem p) =
           [Import ''sys'', Import ''os''] @ banner_events @
           [Open ''complete_dashboard.py'', Read ''complete_dashboard.py'',
            Exec src (launcher_globals p)] @ map FromContent out
         \<and> ending (launcher sem p) = Returned g"
  using assms by (simp add: launcher_main exec_line_text dashboard_path_def)

theorem banner_before_launch_witness:
  "is_main (module_globals (sample_process ''__main__'' (File (Some ''print(1)''))))
   \<and> banner_accepted (sample_process ''__main__'' (File (Some ''print(1)'')))
   \<and> files (sample_process ''__main__'' (File (Some ''print(1)''))) dashboard_path
       = File (Some ''print(1)'')
   \<and> trace (launcher sample_interp (sample_process ''__main__'' (File (Some ''print(1)'')))) =
       [Import ''sys'', Import ''os''] @ banner_events @
       [Open ''complete_dashboard.py'', Read ''complete_dashboard.py'',
        Exec ''print(1)'' [(''__name__'', StrV ''__main__''), (''sys'', ModuleV ''sys''),
                          (''os'', ModuleV ''os'')],
        FromContent (''1'' @ [CHR 0x0A])]
   \<and> ending (launcher sample_interp (sample_process ''__main__'' (File (Some ''print(1)'')))) =
       Returned [(''__name__'', StrV ''__main__''), (''sys'', ModuleV ''sys''),
                 (''os'', ModuleV ''os'')]"
proof -
  let ?p = "sample_process ''__main__'' (File (Some ''print(1)''))"
  have h1: "is_main (module_globals ?p)"
    by (simp add: sample_is_main)
  have h2: "banner_accepted ?p"
    by (rule sample_accepted)
  have h3: "files ?p dashboard_path = File (Some ''print(1)'')"
    by (simp add: sample_files)
  have h4: "sample_interp ''print(1)'' ?p (launcher_globals ?p) =
      ([''1'' @ [CHR 0x0A]], Returned (launcher_globals ?p))"
    by (simp add: sample_interp_def)
  show ?thesis
    using banner_before_launch [where sem = sample_interp and p = ?p, OF h1 h2 h3 h4] h1 h2 h3
    by (simp add: sample_globals)
qed

text \<open>
  C2. In a main run whose dashboard file exists and whose content raises an exception
  (so the banner was printed and line 23 reached), the module body ends by raising that
  very exception: line 23 stands in no \<^verbatim>\<open>try\<close> block, so nothing catches, replaces or
  wraps it.
\<close>

theorem content_error_propagates:
  assumes "is_main (module_globals p)"
    and "banner_accepted p"
    and "files p dashboard_path = File (Some src)"
    and "snd (sem src p (launcher_globals p)) = Raised e"
  shows "ending (launcher sem p) = Raised e"
  using assms by (simp add: launcher_main exec_line_text)

theorem content_error_propagates_witness:
  "is_main (module_globals (sample_process ''__main__'' (File (Some ''1/0''))))
   \<and> banner_accepted (sample_process ''__main__'' (File (Some ''1/0'')))
   \<and> files (sample_process ''__main__'' (File (Some ''1/0''))) dashboard_path = File (Some ''1/0'')
   \<and> snd (sample_interp ''1/0'' (sample_process ''__main__'' (File (Some ''1/0'')))
            (launcher_globals (sample_process ''__main__'' (File (Some ''1/0'')))))
       = Raised (OtherError ''ZeroDivisionError'')
   \<and> ending (launcher sample_interp (sample_process ''__main__'' (File (Some ''1/0''))))
       = Raised (OtherError ''ZeroDivisionError'')"
proof -
  let ?p = "sample_process ''__main__'' (File (Some ''1/0''))"
  have h1: "is_main (module_globals ?p)"
    by (simp add: sample_is_main)
  have h2: "banner_accepted ?p"
    by (rule sample_accepted)
  have h3: "files ?p dashboard_path = File (Some ''1/0'')"
    by (simp add: sample_files)
  have h4: "snd (sample_interp ''1/0'' ?p (launcher_globals ?p)) = Raised (OtherError ''ZeroDivisionError'')"
    by (simp add: sample_interp_def)
  show ?thesis
    using content_error_propagates [where sem = sample_interp and p = ?p, OF h1 h2 h3 h4]
      h1 h2 h3 h4
    by simp
qed

text \<open>
  C3. In a main run whose dashboard file does not exist, the launcher fails and executes
  nothing, so nothing is printed on account of a launch. When standard output accepts the
  whole banner, the failure is \<^verbatim>\<open>FileNotFoundError\<close> for that path and standard
  output holds the banner and nothing more. When it refuses a banner line, the failure is
  the error of that \<^verbatim>\<open>print\<close> and the file is not even looked for.
\<close>

theorem missing_file_fails:
  assumes "is_main (module_globals p)"
    and "files p dashboard_path = NoEntry"
  shows "(\<exists>e. ending (launcher sem p) = Raised e)
         \<and> (\<forall>src ns. Exec src ns \<notin> set (trace (launcher sem p)))
         \<and> (\<forall>s. FromContent s \<notin> set (trace (launcher sem p)))
         \<and> (banner_accepted p \<longrightarrow>
              ending (launcher sem p) = Raised (FileNotFoundError ''complete_dashboard.py'')
              \<and> stdout_of (trace (launcher sem p)) = stdout_of banner_events)
         \<and> (\<not> banner_accepted p \<longrightarrow>
              (ending (launcher sem p) = Raised UnicodeEncodeError
               \<or> ending (launcher sem p) = Raised OSError)
              \<and> Open dashboard_path \<notin> set (trace (launcher sem p)))"
proof (cases "banner_accepted p")
  case True
  then have "launcher sem p =
      \<lparr>trace = [Import ''sys'', Import ''os''] @ banner_events @ [Open dashboard_path],
       ending = Raised (FileNotFoundError dashboard_path)\<rparr>"
    using assms by (simp add: launcher_main exec_line_open_fails)
  with True show ?thesis
    by (auto simp add: dashboard_path_def banner_events_def)
next
  case False
  then obtain f where f: "snd (printed p [] (map (\<lambda>s. s @ [CHR 0x0A]) banner_lines)) = Some f"
    by (auto simp add: banner_accepted_def)
  have l: "launcher sem p =
      \<lparr>trace = [Import ''sys'', Import ''os''] @
               map Stdout (fst (printed p [] (map (\<lambda>s. s @ [CHR 0x0A]) banner_lines))),
       ending = Raised (fault_exn f)\<rparr>"
    by (rule launcher_print_fails [OF assms(1) f])
  have "fault_exn f = UnicodeEncodeError \<or> fault_exn f = OSError"
    by (cases f) simp_all
  with False l show ?thesis
    by auto
qed

theorem missing_file_fails_witness:
  "is_main (module_globals (sample_process ''__main__'' NoEntry))
   \<and> files (sample_process ''__main__'' NoEntry) dashboard_path = NoEntry
   \<and> banner_accepted (sample_process ''__main__'' NoEntry)
   \<and> ending (launcher sample_interp (sample_process ''__main__'' NoEntry))
       = Raised (FileNotFoundError ''complete_dashboard.py'')
   \<and> stdout_of (trace (launcher sample_interp (sample_process ''__main__'' NoEntry)))
       = stdout_of banner_events
   \<and> is_main (module_globals ascii_process)
   \<and> files ascii_process dashboard_path = NoEntry
   \<and> \<not> banner_accepted ascii_process
   \<and> Open dashboard_path \<notin> set (trace (launcher sample_interp ascii_process))"
proof -
  let ?p = "sample_process ''__main__'' NoEntry"
  have h1: "is_main (module_globals ?p)"
    by (simp add: sample_is_main)
  have h2: "files ?p dashboard_path = NoEntry"
    by (simp add: sample_files)
  have h3: "banner_accepted ?p"
    by (rule sample_accepted)
  have h4: "\<not> banner_accepted ascii_process"
    by (simp add: banner_accepted_def ascii_printed)
  note t = missing_file_fails [where sem = sample_interp and p = ?p, OF h1 h2]
  note u = missing_file_fails [where sem = sample_interp and p = ascii_process,
      OF ascii_is_main ascii_files]
  from t h3 have a: "ending (launcher sample_interp ?p)
        = Raised (FileNotFoundError ''complete_dashboard.py'')
      \<and> stdout_of (trace (launcher sample_interp ?p)) = stdout_of banner_events"
    by blast
  from u h4 have b: "Open dashboard_path \<notin> set (trace (launcher sample_interp ascii_process))"
    by blast
  from a b h1 h2 h3 h4 ascii_is_main ascii_files show ?thesis
    by blast
qed

text \<open>
  A file-not-found error in every main run with the file missing does not hold: on a
  standard output that cannot encode the bullet of line 15, the run ends with
  \<^verbatim>\<open>UnicodeEncodeError\<close>.
\<close>

theorem missing_file_counterexample:
  "is_main (module_globals ascii_process)
   \<and> files ascii_process dashboard_path = NoEntry
   \<and> ending (launcher sample_interp ascii_process) = Raised UnicodeEncodeError
   \<and> ending (launcher sample_interp ascii_process)
       \<noteq> Raised (FileNotFoundError ''complete_dashboard.py'')"
  by (simp add: ascii_is_main ascii_files ascii_run)

text \<open>
  C4. In a main run that reaches line 23 (the banner was accepted) and whose dashboard
  file exists with text \<open>src\<close>, the launcher's own actions after the banner are exactly:
  open the fixed path, read it (once, whole), execute \<open>src\<close> (once, the whole text). The
  reading is over before the execution starts, and the content's events all come after.
  The text runs in the launcher's own globals: the initial ones with \<^verbatim>\<open>sys\<close> and
  \<^verbatim>\<open>os\<close> bound.
\<close>

theorem read_once_then_exec:
  assumes "is_main (module_globals p)"
    and "banner_accepted p"
    and "files p dashboard_path = File (Some src)"
  shows "own_actions (trace (launcher sem p)) =
           [Import ''sys'', Import ''os''] @ banner_events @
           [Open ''complete_dashboard.py'', Read ''complete_dashboard.py'',
            Exec src (launcher_globals p)]
         \<and> trace (launcher sem p) =
             own_actions (trace (launcher sem p)) @
             map FromContent (fst (sem src p (launcher_globals p)))
         \<and> filter is_read (trace (launcher sem p)) = [Read ''complete_dashboard.py'']
         \<and> filter is_exec (trace (launcher sem p)) = [Exec src (launcher_globals p)]
         \<and> ending (launcher sem p) = snd (sem src p (launcher_globals p))
         \<and> map_of (launcher_globals p) ''sys'' = Some (ModuleV ''sys'')
         \<and> map_of (launcher_globals p) ''os'' = Some (ModuleV ''os'')
         \<and> (\<forall>k. k \<noteq> ''sys'' \<and> k \<noteq> ''os'' \<longrightarrow>
               map_of (launcher_globals p) k = map_of (module_globals p) k)"
proof -
  have tr: "trace (launcher sem p) =
      [Import ''sys'', Import ''os''] @ banner_events @
      [Open ''complete_dashboard.py'', Read ''complete_dashboard.py'',
       Exec src (launcher_globals p)] @ map FromContent (fst (sem src p (launcher_globals p)))"
    using assms by (simp add: launcher_main exec_line_text dashboard_path_def)
  have ob: "own_actions banner_events = banner_events"
    by (simp add: own_actions_def banner_events_def)
  have oa: "own_actions (trace (launcher sem p)) =
      [Import ''sys'', Import ''os''] @ banner_events @
      [Open ''complete_dashboard.py'', Read ''complete_dashboard.py'',
       Exec src (launcher_globals p)]"
    unfolding tr by (simp add: own_actions_simps ob)
  have nr: "filter is_read (map FromContent out) = []"
    and ne: "filter is_exec (map FromContent out) = []" for out
    by (induction out) simp_all
  have br: "filter is_read banner_events = []" and be: "filter is_exec banner_events = []"
    by (simp_all add: banner_events_def)
  have rd: "filter is_read (trace (launcher sem p)) = [Read ''complete_dashboard.py'']"
    unfolding tr by (simp add: nr br)
  have ex: "filter is_exec (trace (launcher sem p)) = [Exec src (launcher_globals p)]"
    unfolding tr by (simp add: ne be)
  have en: "ending (launcher sem p) = snd (sem src p (launcher_globals p))"
    using assms by (simp add: launcher_main exec_line_text)
  show ?thesis
    unfolding oa using tr rd ex en by (simp add: launcher_globals_lookup)
qed

theorem read_once_then_exec_witness:
  "is_main (module_globals (sample_process ''__main__'' (File (Some ''print(1)''))))
   \<and> banner_accepted (sample_process ''__main__'' (File (Some ''print(1)'')))
   \<and> files (sample_process ''__main__'' (File (Some ''print(1)''))) dashboard_path
       = File (Some ''print(1)'')
   \<and> own_actions (trace (launcher sample_interp
         (sample_process ''__main__'' (File (Some ''print(1)''))))) =
       [Import ''sys'', Import ''os''] @ banner_events @
       [Open ''complete_dashboard.py'', Read ''complete_dashboard.py'',
        Exec ''print(1)'' [(''__name__'', StrV ''__main__''), (''sys'', ModuleV ''sys''),
                          (''os'', ModuleV ''os'')]]
   \<and> map_of (launcher_globals (sample_process ''__main__'' (File (Some ''print(1)''))))
         ''__name__''
       = map_of (module_globals (sample_process ''__main__'' (File (Some ''print(1)''))))
         ''__name__''"
proof -
  let ?p = "sample_process ''__main__'' (File (Some ''print(1)''))"
  have h1: "is_main (module_globals ?p)"
    by (simp add: sample_is_main)
  have h2: "banner_accepted ?p"
    by (rule sample_accepted)
  have h3: "files ?p dashboard_path = File (Some ''print(1)'')"
    by (simp add: sample_files)
  note t = read_once_then_exec [where sem = sample_interp and p = ?p, OF h1 h2 h3]
  have k: "''__name__'' \<noteq> ''sys'' \<and> ''__name__'' \<noteq> ''os''"
    by simp
  from t have a: "own_actions (trace (launcher sample_interp ?p)) =
      [Import ''sys'', Import ''os''] @ banner_events @
      [Open ''complete_dashboard.py'', Read ''complete_dashboard.py'',
       Exec ''print(1)'' (launcher_globals ?p)]"
    by (rule conjunct1)
  from t have "\<forall>k. k \<noteq> ''sys'' \<and> k \<noteq> ''os'' \<longrightarrow>
      map_of (launcher_globals ?p) k = map_of (module_globals ?p) k"
    by (elim conjE)
  from this [rule_format, OF k] a h1 h2 h3 show ?thesis
    by (simp add: sample_globals)
qed

text \<open>
  C5. The launcher never looks at the argument vector: two runs that differ only in it
  perform the same actions of the launcher (the same imports, the same banner writes, the
  same opening and reading of the file, the same text executed in the same namespace).
  What the executed content does with \<^verbatim>\<open>sys.argv\<close> is the content's own behaviour.
\<close>

theorem argv_not_consumed:
  "own_actions (trace (launcher sem (p\<lparr>argv := a\<rparr>))) =
   own_actions (trace (launcher sem (p\<lparr>argv := b\<rparr>)))"
  by (simp add: launcher_own_actions launcher_globals_argv printed_argv
      split: fnode.splits option.splits)

theorem argv_not_consumed_witness:
  "own_actions (trace (launcher sample_interp
      ((sample_process ''__main__'' (File (Some ''print(sys.argv)'')))\<lparr>argv := [''a'']\<rparr>))) =
   own_actions (trace (launcher sample_interp
      ((sample_process ''__main__'' (File (Some ''print(sys.argv)'')))\<lparr>argv := [''b'']\<rparr>)))
   \<and> trace (launcher sample_interp
      ((sample_process ''__main__'' (File (Some ''print(sys.argv)'')))\<lparr>argv := [''a'']\<rparr>)) \<noteq>
     trace (launcher sample_interp
      ((sample_process ''__main__'' (File (Some ''print(sys.argv)'')))\<lparr>argv := [''b'']\<rparr>))"
proof -
  let ?p = "sample_process ''__main__'' (File (Some ''print(sys.argv)''))"
  have m: "is_main (module_globals (?p\<lparr>argv := x\<rparr>))" for x
    by (simp add: sample_process_def is_main_def)
  have f: "files (?p\<lparr>argv := x\<rparr>) dashboard_path = File (Some ''print(sys.argv)'')" for x
    by (simp add: sample_process_def dashboard_path_def)
  have tr: "trace (launcher sample_interp (?p\<lparr>argv := x\<rparr>)) =
      [Import ''sys'', Import ''os''] @ banner_events @
      [Open dashboard_path, Read dashboard_path,
       Exec ''print(sys.argv)'' (launcher_globals (?p\<lparr>argv := x\<rparr>))] @
      map FromContent [concat x @ [CHR 0x0A]]" for x
    using m [of x] f [of x] sample_accepted_argv [where name = "''__main__''" and a = x]
    by (simp add: launcher_main exec_line_text sample_interp_def)
  have d: "trace (launcher sample_interp (?p\<lparr>argv := [''a'']\<rparr>)) \<noteq>
      trace (launcher sample_interp (?p\<lparr>argv := [''b'']\<rparr>))"
    unfolding tr by simp
  show ?thesis
    using argv_not_consumed [where sem = sample_interp and p = ?p and a = "[''a'']" and b = "[''b'']"] d
    by (intro conjI)
qed

text \<open>
  C6. The path is the constant, non-empty string \<^verbatim>\<open>complete_dashboard.py\<close>: every
  opening and every reading in a run names it, and every text executed is the text of
  the file at that path.
\<close>

theorem path_is_constant:
  "dashboard_path = ''complete_dashboard.py'' \<and> dashboard_path \<noteq> []
   \<and> (\<forall>e \<in> set (trace (launcher sem p)).
         (\<forall>q. e = Open q \<or> e = Read q \<longrightarrow> q = dashboard_path)
         \<and> (\<forall>src ns. e = Exec src ns \<longrightarrow> files p dashboard_path = File (Some src)))"
  unfolding launcher_trace_cases
  by (auto simp add: dashboard_path_def split: fnode.splits option.splits)

theorem path_is_constant_witness:
  "Open ''complete_dashboard.py'' \<in>
     set (trace (launcher sample_interp (sample_process ''__main__'' (File (Some ''print(1)'')))))
   \<and> Read ''complete_dashboard.py'' \<in>
     set (trace (launcher sample_interp (sample_process ''__main__'' (File (Some ''print(1)'')))))
   \<and> Exec ''print(1)'' (launcher_globals (sample_process ''__main__'' (File (Some ''print(1)'')))) \<in>
     set (trace (launcher sample_interp (sample_process ''__main__'' (File (Some ''print(1)'')))))
   \<and> files (sample_process ''__main__'' (File (Some ''print(1)''))) dashboard_path
       = File (Some ''print(1)'')
   \<and> dashboard_path = ''complete_dashboard.py''"
proof -
  let ?p = "sample_process ''__main__'' (File (Some ''print(1)''))"
  have m: "is_main (module_globals ?p)"
    by (simp add: sample_is_main)
  have f: "files ?p dashboard_path = File (Some ''print(1)'')"
    by (simp add: sample_files)
  have tr: "trace (launcher sample_interp ?p) =
      [Import ''sys'', Import ''os''] @ banner_events @
      [Open ''complete_dashboard.py'', Read ''complete_dashboard.py'',
       Exec ''print(1)'' (launcher_globals ?p)] @
      map FromContent (fst (sample_interp ''print(1)'' ?p (launcher_globals ?p)))"
    using m f sample_accepted [where name = "''__main__''" and node = "File (Some ''print(1)'')"]
    by (simp add: launcher_main exec_line_text dashboard_path_def)
  have e: "Exec ''print(1)'' (launcher_globals ?p) \<in> set (trace (launcher sample_interp ?p))"
    unfolding tr by simp
  have o: "Open ''complete_dashboard.py'' \<in> set (trace (launcher sample_interp ?p))"
    unfolding tr by simp
  have r: "Read ''complete_dashboard.py'' \<in> set (trace (launcher sample_interp ?p))"
    unfolding tr by simp
  from path_is_constant [of sample_interp ?p]
  have c: "dashboard_path = ''complete_dashboard.py''"
    and all: "\<forall>e \<in> set (trace (launcher sample_interp ?p)).
         (\<forall>q. e = Open q \<or> e = Read q \<longrightarrow> q = dashboard_path)
         \<and> (\<forall>src ns. e = Exec src ns \<longrightarrow> files ?p dashboard_path = File (Some src))"
    by blast+
  from all e have "files ?p dashboard_path = File (Some ''print(1)'')"
    by blast
  with o r e c show ?thesis
    by (intro conjI)
qed

text \<open>
  C7. The launcher has no statement that sets an exit status: a \<^verbatim>\<open>SystemExit\<close> can
  only come out of the executed content. When the banner is printed, the content runs to
  its end and the interpreter shuts down normally (the final flush succeeds), the status
  is 0. When the file cannot be opened or read as text, or the content raises anything
  but a request to exit with status 0, the process does not end with status 0: it exits
  with a non-zero status, or is killed by the interrupt signal.
\<close>

theorem launcher_exit_status:
  "(\<forall>src g. is_main (module_globals p) \<and> banner_accepted p
        \<and> files p dashboard_path = File (Some src)
        \<and> snd (sem src p (launcher_globals p)) = Returned g \<and> flush_ok p \<longrightarrow>
        exit_status p (ending (launcher sem p)) = Some (Exited 0))
   \<and> (is_main (module_globals p)
        \<and> files p dashboard_path \<in> {NoEntry, NoAccess, Directory, File None} \<longrightarrow>
        (\<exists>st. exit_status p (ending (launcher sem p)) = Some st \<and> st \<noteq> Exited 0))
   \<and> (\<forall>src e. is_main (module_globals p) \<and> files p dashboard_path = File (Some src)
        \<and> snd (sem src p (launcher_globals p)) = Raised e \<and> \<not> exits_zero e \<longrightarrow>
        (\<exists>st. exit_status p (ending (launcher sem p)) = Some st \<and> st \<noteq> Exited 0))
   \<and> (\<forall>a. ending (launcher sem p) = Raised (SystemExit a) \<longrightarrow>
        (\<exists>src. is_main (module_globals p) \<and> banner_accepted p
           \<and> files p dashboard_path = File (Some src)
           \<and> snd (sem src p (launcher_globals p)) = Raised (SystemExit a)))"
proof -
  have nz: "\<not> exits_zero e \<Longrightarrow> \<exists>st. exit_status p (Raised e) = Some st \<and> st \<noteq> Exited 0" for e
    by (cases e) (simp_all add: exit_status_def)
  have fe: "\<not> exits_zero (fault_exn f)" for f
    by (cases f) simp_all
  have pf: "is_main (module_globals p) \<Longrightarrow> \<not> banner_accepted p \<Longrightarrow>
      \<exists>e. ending (launcher sem p) = Raised e \<and> \<not> exits_zero e"
    using fe by (auto simp add: launcher_ending_cases banner_accepted_def)
  have c1: "is_main (module_globals p) \<Longrightarrow> banner_accepted p \<Longrightarrow>
      files p dashboard_path = File (Some src) \<Longrightarrow>
      snd (sem src p (launcher_globals p)) = Returned g \<Longrightarrow> flush_ok p \<Longrightarrow>
      exit_status p (ending (launcher sem p)) = Some (Exited 0)" for src g
    by (simp add: launcher_ending_cases banner_accepted_def exit_status_def)
  have c2: "is_main (module_globals p) \<Longrightarrow>
      files p dashboard_path \<in> {NoEntry, NoAccess, Directory, File None} \<Longrightarrow>
      \<exists>e. ending (launcher sem p) = Raised e \<and> \<not> exits_zero e"
    using fe by (auto simp add: launcher_ending_cases split: option.splits)
  have c3: "is_main (module_globals p) \<Longrightarrow> files p dashboard_path = File (Some src) \<Longrightarrow>
      snd (sem src p (launcher_globals p)) = Raised e \<Longrightarrow> \<not> exits_zero e \<Longrightarrow>
      \<exists>e'. ending (launcher sem p) = Raised e' \<and> \<not> exits_zero e'" for src e
    using fe by (auto simp add: launcher_ending_cases split: option.splits)
  have c4: "ending (launcher sem p) = Raised (SystemExit a) \<Longrightarrow>
      \<exists>src. is_main (module_globals p) \<and> banner_accepted p
           \<and> files p dashboard_path = File (Some src)
           \<and> snd (sem src p (launcher_globals p)) = Raised (SystemExit a)" for a
  proof -
    assume a: "ending (launcher sem p) = Raised (SystemExit a)"
    have ne: "fault_exn f \<noteq> SystemExit a" for f
      by (cases f) simp_all
    from a ne show ?thesis
      by (auto simp add: launcher_ending_cases banner_accepted_def
          split: if_splits option.splits fnode.splits)
  qed
  show ?thesis
  proof (intro conjI allI impI)
    fix src g
    assume "is_main (module_globals p) \<and> banner_accepted p
        \<and> files p dashboard_path = File (Some src)
        \<and> snd (sem src p (launcher_globals p)) = Returned g \<and> flush_ok p"
    then show "exit_status p (ending (launcher sem p)) = Some (Exited 0)"
      using c1 by blast
  next
    assume "is_main (module_globals p)
        \<and> files p dashboard_path \<in> {NoEntry, NoAccess, Directory, File None}"
    then obtain e where "ending (launcher sem p) = Raised e" "\<not> exits_zero e"
      using c2 by blast
    then show "\<exists>st. exit_status p (ending (launcher sem p)) = Some st \<and> st \<noteq> Exited 0"
      using nz [of e] by simp
  next
    fix src e
    assume "is_main (module_globals p) \<and> files p dashboard_path = File (Some src)
        \<and> snd (sem src p (launcher_globals p)) = Raised e \<and> \<not> exits_zero e"
    then obtain e' where "ending (launcher sem p) = Raised e'" "\<not> exits_zero e'"
      using c3 by blast
    then show "\<exists>st. exit_status p (ending (launcher sem p)) = Some st \<and> st \<noteq> Exited 0"
      using nz [of e'] by simp
  next
    fix a
    assume "ending (launcher sem p) = Raised (SystemExit a)"
    then show "\<exists>src. is_main (module_globals p) \<and> banner_accepted p
           \<and> files p dashboard_path = File (Some src)
           \<and> snd (sem src p (launcher_globals p)) = Raised (SystemExit a)"
      by (rule c4)
  qed
qed

theorem launcher_exit_status_witness:
  "exit_status (sample_process ''__main__'' (File (Some ''print(1)'')))
      (ending (launcher sample_interp (sample_process ''__main__'' (File (Some ''print(1)'')))))
     = Some (Exited 0)
   \<and> exit_status (sample_process ''__main__'' NoEntry)
      (ending (launcher sample_interp (sample_process ''__main__'' NoEntry)))
     = Some (Exited 1)
   \<and> exit_status (sample_process ''__main__'' (File (Some ''1/0'')))
      (ending (launcher sample_interp (sample_process ''__main__'' (File (Some ''1/0'')))))
     = Some (Exited 1)
   \<and> exit_status (sample_process ''__main__'' (File (Some ''sys.exit(2)'')))
      (ending (launcher sample_interp (sample_process ''__main__'' (File (Some ''sys.exit(2)'')))))
     = Some (Exited 2)
   \<and> ending (launcher sample_interp (sample_process ''__main__'' (File (Some ''sys.exit(0)''))))
       = Raised (SystemExit (ExitInt 0))
   \<and> (\<exists>src. files (sample_process ''__main__'' (File (Some ''sys.exit(0)''))) dashboard_path
          = File (Some src) \<and>
        snd (sample_interp src (sample_process ''__main__'' (File (Some ''sys.exit(0)'')))
          (launcher_globals (sample_process ''__main__'' (File (Some ''sys.exit(0)'')))))
          = Raised (SystemExit (ExitInt 0)))"
proof -
  let ?ok = "sample_process ''__main__'' (File (Some ''print(1)''))"
  let ?bad = "sample_process ''__main__'' (File (Some ''1/0''))"
  let ?none = "sample_process ''__main__'' NoEntry"
  let ?two = "sample_process ''__main__'' (File (Some ''sys.exit(2)''))"
  let ?quit = "sample_process ''__main__'' (File (Some ''sys.exit(0)''))"
  have acc: "snd (printed (sample_process n d) [] (map (\<lambda>s. s @ [CHR 0x0A]) banner_lines)) = None"
    for n d
    using sample_accepted [of n d] by (simp add: banner_accepted_def)
  have h1: "is_main (module_globals ?ok) \<and> banner_accepted ?ok
      \<and> files ?ok dashboard_path = File (Some ''print(1)'')
      \<and> snd (sample_interp ''print(1)'' ?ok (launcher_globals ?ok)) = Returned (launcher_globals ?ok)
      \<and> flush_ok ?ok"
    by (simp add: sample_is_main sample_accepted sample_files sample_interp_def)
      (simp add: sample_process_def)
  have h2: "is_main (module_globals ?none)
      \<and> files ?none dashboard_path \<in> {NoEntry, NoAccess, Directory, File None}"
    by (simp add: sample_is_main sample_files)
  have h3: "is_main (module_globals ?bad) \<and> files ?bad dashboard_path = File (Some ''1/0'')
      \<and> snd (sample_interp ''1/0'' ?bad (launcher_globals ?bad))
          = Raised (OtherError ''ZeroDivisionError'')
      \<and> \<not> exits_zero (OtherError ''ZeroDivisionError'')"
    by (simp add: sample_is_main sample_files sample_interp_def)
  have h4: "is_main (module_globals ?two) \<and> files ?two dashboard_path = File (Some ''sys.exit(2)'')
      \<and> snd (sample_interp ''sys.exit(2)'' ?two (launcher_globals ?two))
          = Raised (SystemExit (ExitInt 2))
      \<and> \<not> exits_zero (SystemExit (ExitInt 2))"
    by (simp add: sample_is_main sample_files sample_interp_def exit_code_def)
  have h5: "ending (launcher sample_interp ?quit) = Raised (SystemExit (ExitInt 0))"
    by (simp add: launcher_ending_cases sample_is_main sample_files sample_interp_def acc)
  have v2: "exit_status ?none (ending (launcher sample_interp ?none)) = Some (Exited 1)"
    by (simp add: launcher_ending_cases sample_is_main sample_files acc exit_status_def)
      (simp add: sample_process_def)
  have v3: "exit_status ?bad (ending (launcher sample_interp ?bad)) = Some (Exited 1)"
    by (simp add: launcher_ending_cases sample_is_main sample_files acc exit_status_def
        sample_interp_def) (simp add: sample_process_def)
  have v4: "exit_status ?two (ending (launcher sample_interp ?two)) = Some (Exited 2)"
    by (simp add: launcher_ending_cases sample_is_main sample_files acc exit_status_def
        sample_interp_def exit_code_def) (simp add: sample_process_def)
  note t1 = launcher_exit_status [of ?ok sample_interp, THEN conjunct1, rule_format, OF h1]
  note t2 = launcher_exit_status [of ?none sample_interp, THEN conjunct2, THEN conjunct1,
      rule_format, OF h2]
  note t3 = launcher_exit_status [of ?bad sample_interp, THEN conjunct2, THEN conjunct2,
      THEN conjunct1, rule_format, OF h3]
  note t4 = launcher_exit_status [of ?two sample_interp, THEN conjunct2, THEN conjunct2,
      THEN conjunct1, rule_format, OF h4]
  note t5 = launcher_exit_status [of ?quit sample_interp, THEN conjunct2, THEN conjunct2,
      THEN conjunct2, rule_format, OF h5]
  have t5': "\<exists>src. files ?quit dashboard_path = File (Some src) \<and>
      snd (sample_interp src ?quit (launcher_globals ?quit)) = Raised (SystemExit (ExitInt 0))"
    using t5 by blast
  show ?thesis
    using t1 t2 t3 t4 v2 v3 v4 h5 t5' by (intro conjI)
qed

text \<open>
  C8. When the module is not the main one, the run consists of the two imports: nothing
  is written, the file is neither opened nor read, nothing is executed, and the module
  body returns.
\<close>

theorem imported_does_nothing:
  assumes "\<not> is_main (module_globals p)"
  shows "trace (launcher sem p) = [Import ''sys'', Import ''os'']
         \<and> stdout_of (trace (launcher sem p)) = []
         \<and> ending (launcher sem p) = Returned (launcher_globals p)"
  using assms by (simp add: launcher_not_main)

theorem imported_does_nothing_witness:
  "\<not> is_main (module_globals (sample_process ''trends_dashboard_service'' (File (Some ''print(1)''))))
   \<and> trace (launcher sample_interp
        (sample_process ''trends_dashboard_service'' (File (Some ''print(1)''))))
       = [Import ''sys'', Import ''os'']
   \<and> ending (launcher sample_interp
        (sample_process ''trends_dashboard_service'' (File (Some ''print(1)''))))
       = Returned [(''__name__'', StrV ''trends_dashboard_service''), (''sys'', ModuleV ''sys''),
                   (''os'', ModuleV ''os'')]"
proof -
  let ?p = "sample_process ''trends_dashboard_service'' (File (Some ''print(1)''))"
  have h: "\<not> is_main (module_globals ?p)"
    by (simp add: sample_is_main)
  show ?thesis
    using imported_does_nothing [where sem = sample_interp and p = ?p, OF h] h
    by (simp add: sample_globals)
qed

text \<open>
  C9. In a main run whose banner standard output accepts, the banner is written in full
  before the file is opened, whatever the path names; when the file does not exist the
  run is: imports, banner, the failed opening, and \<^verbatim>\<open>FileNotFoundError\<close>. In every
  main run, what the launcher writes does not depend on the files.
\<close>

theorem banner_unconditional:
  assumes "is_main (module_globals p)"
  shows "(banner_accepted p \<longrightarrow>
           (\<exists>rest. trace (launcher sem p) =
              [Import ''sys'', Import ''os''] @ banner_events @ Open dashboard_path # rest)
           \<and> (files p dashboard_path = NoEntry \<longrightarrow>
                trace (launcher sem p) =
                  [Import ''sys'', Import ''os''] @ banner_events @ [Open dashboard_path]
                \<and> ending (launcher sem p) = Raised (FileNotFoundError ''complete_dashboard.py'')))
         \<and> (\<forall>f. stdout_of (trace (launcher sem (p\<lparr>files := f\<rparr>))) =
                 stdout_of (trace (launcher sem p)))"
proof -
  have a: "banner_accepted p \<Longrightarrow>
      \<exists>rest. trace (launcher sem p) =
        [Import ''sys'', Import ''os''] @ banner_events @ Open dashboard_path # rest"
    using assms banner_accepted_printed [of p]
    by (simp add: launcher_trace_cases banner_accepted_def)
  have b: "banner_accepted p \<Longrightarrow> files p dashboard_path = NoEntry \<Longrightarrow>
      trace (launcher sem p) =
        [Import ''sys'', Import ''os''] @ banner_events @ [Open dashboard_path]
      \<and> ending (launcher sem p) = Raised (FileNotFoundError ''complete_dashboard.py'')"
    using assms by (simp add: launcher_main exec_line_open_fails dashboard_path_def)
  have c: "stdout_of (trace (launcher sem (p\<lparr>files := f\<rparr>))) =
      stdout_of (trace (launcher sem p))" for f
    by (simp add: launcher_stdout printed_files)
  from a b c show ?thesis
    by blast
qed

theorem banner_unconditional_witness:
  "is_main (module_globals (sample_process ''__main__'' NoEntry))
   \<and> banner_accepted (sample_process ''__main__'' NoEntry)
   \<and> files (sample_process ''__main__'' NoEntry) dashboard_path = NoEntry
   \<and> trace (launcher sample_interp (sample_process ''__main__'' NoEntry)) =
       [Import ''sys'', Import ''os''] @ banner_events @ [Open dashboard_path]
   \<and> ending (launcher sample_interp (sample_process ''__main__'' NoEntry))
       = Raised (FileNotFoundError ''complete_dashboard.py'')"
proof -
  let ?p = "sample_process ''__main__'' NoEntry"
  have h1: "is_main (module_globals ?p)"
    by (simp add: sample_is_main)
  have h2: "banner_accepted ?p"
    by (rule sample_accepted)
  have h3: "files ?p dashboard_path = NoEntry"
    by (simp add: sample_files)
  note t = banner_unconditional [where sem = sample_interp and p = ?p, OF h1]
  from t h2 h3 have "trace (launcher sample_interp ?p) =
        [Import ''sys'', Import ''os''] @ banner_events @ [Open dashboard_path]
      \<and> ending (launcher sample_interp ?p) = Raised (FileNotFoundError ''complete_dashboard.py'')"
    by blast
  with h1 h2 h3 show ?thesis
    by blast
qed

text \<open>
  All banner lines and then the file-not-found error, whenever the file is missing, does
  not hold: on a standard output that cannot encode the bullet of line 15, six lines are
  written, the seventh \<^verbatim>\<open>print\<close> raises, and the file is never opened.
\<close>

theorem banner_cut_counterexample:
  "is_main (module_globals ascii_process)
   \<and> files ascii_process dashboard_path = NoEntry
   \<and> trace (launcher sample_interp ascii_process) =
       [Import ''sys'', Import ''os''] @ take 6 banner_events
   \<and> Open dashboard_path \<notin> set (trace (launcher sample_interp ascii_process))
   \<and> length (stdout_of (trace (launcher sample_interp ascii_process)))
       < length (stdout_of banner_events)"
  by (simp add: ascii_is_main ascii_files ascii_run) (simp add: banner_events_def)

text \<open>
  C10. In a main run that reaches line 23, the content is executed in a namespace whose
  \<^verbatim>\<open>__name__\<close> is \<^verbatim>\<open>__main__\<close>, so content of the form
  \<^verbatim>\<open>if __name__ == "__main__": body\<close> runs its body: the run ends as the body ends
  and emits what the body emits.
\<close>

theorem content_runs_as_main:
  assumes "is_main (module_globals p)"
    and "banner_accepted p"
    and "files p dashboard_path = File (Some src)"
  shows "Exec src (launcher_globals p) \<in> set (trace (launcher sem p))
         \<and> map_of (launcher_globals p) ''__name__'' = Some (StrV ''__main__'')
         \<and> (\<forall>body. sem src p (launcher_globals p) = if_name_main body p (launcher_globals p) \<longrightarrow>
               trace (launcher sem p) =
                 [Import ''sys'', Import ''os''] @ banner_events @
                 [Open dashboard_path, Read dashboard_path, Exec src (launcher_globals p)] @
                 map FromContent (fst (body p (launcher_globals p)))
               \<and> ending (launcher sem p) = snd (body p (launcher_globals p)))"
proof -
  have m: "is_main (launcher_globals p)"
    using assms(1) by (simp add: is_main_launcher_globals)
  then have n: "map_of (launcher_globals p) ''__name__'' = Some (StrV ''__main__'')"
    by (simp add: is_main_def)
  have g: "if_name_main body p (launcher_globals p) = body p (launcher_globals p)" for body
    using m by (simp add: if_name_main_def)
  show ?thesis
    using assms n by (simp add: launcher_main exec_line_text g)
qed

theorem content_runs_as_main_witness:
  "is_main (module_globals (sample_process ''__main__'' (File (Some guarded_src))))
   \<and> banner_accepted (sample_process ''__main__'' (File (Some guarded_src)))
   \<and> files (sample_process ''__main__'' (File (Some guarded_src))) dashboard_path
       = File (Some guarded_src)
   \<and> trace (launcher sample_interp (sample_process ''__main__'' (File (Some guarded_src)))) =
       [Import ''sys'', Import ''os''] @ banner_events @
       [Open dashboard_path, Read dashboard_path,
        Exec guarded_src (launcher_globals (sample_process ''__main__'' (File (Some guarded_src)))),
        FromContent (''1'' @ [CHR 0x0A])]
   \<and> ending (launcher sample_interp (sample_process ''__main__'' (File (Some guarded_src))))
       = Returned (launcher_globals (sample_process ''__main__'' (File (Some guarded_src))))"
proof -
  let ?p = "sample_process ''__main__'' (File (Some guarded_src))"
  let ?body = "\<lambda>(p::process) (ns::namespace). ([''1'' @ [CHR 0x0A]], Returned ns)"
  have h1: "is_main (module_globals ?p)"
    by (simp add: sample_is_main)
  have h2: "banner_accepted ?p"
    by (rule sample_accepted)
  have h3: "files ?p dashboard_path = File (Some guarded_src)"
    by (simp add: sample_files)
  have h4: "sample_interp guarded_src ?p (launcher_globals ?p) =
      if_name_main ?body ?p (launcher_globals ?p)"
    by (simp add: sample_interp_def guarded_src_def)
  from content_runs_as_main [where sem = sample_interp and p = ?p, OF h1 h2 h3]
  have "\<forall>body. sample_interp guarded_src ?p (launcher_globals ?p) =
            if_name_main body ?p (launcher_globals ?p) \<longrightarrow>
          trace (launcher sample_interp ?p) =
            [Import ''sys'', Import ''os''] @ banner_events @
            [Open dashboard_path, Read dashboard_path, Exec guarded_src (launcher_globals ?p)] @
            map FromContent (fst (body ?p (launcher_globals ?p)))
          \<and> ending (launcher sample_interp ?p) = snd (body ?p (launcher_globals ?p))"
    by (elim conjE)
  from this [rule_format, of ?body, OF h4] h1 h2 h3 show ?thesis
    by simp
qed

end
